theory Spec2Isabelle
  imports Main "HOL-Library.Char_ord" "HOL-Library.List_Lexorder"
begin

section \<open>Python strings\<close>

text \<open>
  Text is a list of characters. A \<^typ>\<open>char\<close> stands for a code point below 256; on that
  range \<open>str.lower\<close> maps \<open>A..Z\<close> and the Latin-1 capitals (192..222 without 215) to the code
  point 32 above and leaves everything else alone.
\<close>

definition char_lower :: "char \<Rightarrow> char" where
  "char_lower c =
     (let n = (of_char c :: nat)
      in if (65 \<le> n \<and> n \<le> 90) \<or> (192 \<le> n \<and> n \<le> 222 \<and> n \<noteq> 215)
         then char_of (n + 32) else c)"

definition lower :: "string \<Rightarrow> string" where
  "lower s = map char_lower s"

text \<open>\<open>needle in hay\<close> on strings: \<open>needle\<close> occurs as a contiguous block of \<open>hay\<close>.\<close>

fun starts_with :: "string \<Rightarrow> string \<Rightarrow> bool" where
  "starts_with [] hay = True"
| "starts_with (k # ks) [] = False"
| "starts_with (k # ks) (h # hs) = (k = h \<and> starts_with ks hs)"

fun str_in :: "string \<Rightarrow> string \<Rightarrow> bool" where
  "str_in needle [] = starts_with needle []"
| "str_in needle (h # hs) = (starts_with needle (h # hs) \<or> str_in needle hs)"

section \<open>The keyword classifier\<close>

definition PHARMA_KEYWORDS :: "string list" where
  "PHARMA_KEYWORDS =
     [''pharma'', ''biotech'', ''therapeutics'', ''genomics'', ''diagnostics'',
      ''inc'', ''corp'', ''ltd'', ''gmbh'', ''s.a.'', ''s.r.l'', ''pharmaceutical'',
      ''biotechnology'']"

text \<open>
  The condition of line 172: \<open>affil and any(k.lower() in affil.lower() for k in PHARMA_KEYWORDS)\<close>.
  \<open>None\<close> and the empty string are both falsy.
\<close>

definition is_commercial :: "string option \<Rightarrow> bool" where
  "is_commercial affil =
     (case affil of
        None \<Rightarrow> False
      | Some a \<Rightarrow> a \<noteq> [] \<and> list_ex (\<lambda>k. str_in (lower k) (lower a)) PHARMA_KEYWORDS)"

section \<open>Whitespace trimming and joining\<close>

text \<open>\<open>str.isspace\<close> on the code points below 256.\<close>

definition py_isspace :: "char \<Rightarrow> bool" where
  "py_isspace c =
     (let n = (of_char c :: nat)
      in (9 \<le> n \<and> n \<le> 13) \<or> (28 \<le> n \<and> n \<le> 32) \<or> n = 133 \<or> n = 160)"

definition strip :: "string \<Rightarrow> string" where
  "strip s = rev (dropWhile py_isspace (rev (dropWhile py_isspace s)))"

fun join :: "string \<Rightarrow> string list \<Rightarrow> string" where
  "join sep [] = []"
| "join sep [x] = x"
| "join sep (x # y # ys) = x @ sep @ join sep (y # ys)"

text \<open>\<open>value or "N/A"\<close>: \<open>None\<close> and the empty string are replaced.\<close>

definition or_NA :: "string option \<Rightarrow> string" where
  "or_NA v = (case v of None \<Rightarrow> ''N/A'' | Some s \<Rightarrow> if s = [] then ''N/A'' else s)"

section \<open>The email pattern\<close>

text \<open>
  \<open>re.search(r"[a-zA-Z0-9._%+-]+@[a-zA-Z0-9.-]+\.[a-zA-Z]{2,}", s)\<close>: the leftmost start
  position at which the backtracking matcher succeeds; every repetition is greedy, so the
  longest run is tried first and shortened by one on failure.
\<close>

definition is_alpha :: "char \<Rightarrow> bool" where
  "is_alpha c = (let n = (of_char c :: nat) in (65 \<le> n \<and> n \<le> 90) \<or> (97 \<le> n \<and> n \<le> 122))"

definition is_digit :: "char \<Rightarrow> bool" where
  "is_digit c = (let n = (of_char c :: nat) in 48 \<le> n \<and> n \<le> 57)"

definition local_char :: "char \<Rightarrow> bool" where
  "local_char c = (is_alpha c \<or> is_digit c \<or> c \<in> set ''._%+-'')"

definition domain_char :: "char \<Rightarrow> bool" where
  "domain_char c = (is_alpha c \<or> is_digit c \<or> c \<in> set ''.-'')"

text \<open>The tail \<open>[a-zA-Z]{2,}\<close>: nothing follows it, so its first (longest) try decides.\<close>

definition match_tld :: "string \<Rightarrow> string option" where
  "match_tld s = (let t = takeWhile is_alpha s in if 2 \<le> length t then Some t else None)"

text \<open>\<open>[a-zA-Z0-9.-]+\.[a-zA-Z]{2,}\<close> with the first part of length \<open>m\<close>, then \<open>m - 1\<close>, ... down to 1.\<close>

fun match_domain :: "nat \<Rightarrow> string \<Rightarrow> string option" where
  "match_domain 0 s = None"
| "match_domain (Suc m) s =
     (case drop (Suc m) s of
        [] \<Rightarrow> match_domain m s
      | c # rest \<Rightarrow>
          if c = CHR ''.'' then
            (case match_tld rest of
               Some t \<Rightarrow> Some (take (Suc m) s @ ''.'' @ t)
             | None \<Rightarrow> match_domain m s)
          else match_domain m s)"

text \<open>The whole pattern with the local part of length \<open>n\<close>, then \<open>n - 1\<close>, ... down to 1.\<close>

fun match_local :: "nat \<Rightarrow> string \<Rightarrow> string option" where
  "match_local 0 s = None"
| "match_local (Suc n) s =
     (case drop (Suc n) s of
        [] \<Rightarrow> match_local n s
      | c # rest \<Rightarrow>
          if c = CHR ''@'' then
            (case match_domain (length (takeWhile domain_char rest)) rest of
               Some d \<Rightarrow> Some (take (Suc n) s @ ''@'' @ d)
             | None \<Rightarrow> match_local n s)
          else match_local n s)"

definition match_here :: "string \<Rightarrow> string option" where
  "match_here s = match_local (length (takeWhile local_char s)) s"

fun search_email :: "string \<Rightarrow> string option" where
  "search_email [] = match_here []"
| "search_email (c # cs) =
     (case match_here (c # cs) of Some m \<Rightarrow> Some m | None \<Rightarrow> search_email cs)"

section \<open>Element trees\<close>

text \<open>
  An \<open>xml.etree.ElementTree.Element\<close> as the program reads it: tag, text (\<open>None\<close> when the
  element has no character data before its first child) and children in document order.
\<close>

datatype element = Element (elem_tag: string) (elem_text: "string option") (elem_children: "element list")

text \<open>\<open>Element.iter()\<close>: the element, then its descendants, in document order.\<close>

fun iter :: "element \<Rightarrow> element list" where
  "iter (Element t x cs) = Element t x cs # concat (map iter cs)"

text \<open>\<open>e.findall(".//T")\<close>: the descendants of \<open>e\<close> with tag \<open>T\<close>; \<open>e\<close> itself is left out.\<close>

definition findall_desc :: "string \<Rightarrow> element \<Rightarrow> element list" where
  "findall_desc t e = filter (\<lambda>x. elem_tag x = t) (concat (map iter (elem_children e)))"

definition find_desc :: "string \<Rightarrow> element \<Rightarrow> element option" where
  "find_desc t e = (case findall_desc t e of [] \<Rightarrow> None | x # _ \<Rightarrow> Some x)"

text \<open>\<open>findtext\<close> gives the empty string for a found element without text.\<close>

definition text_or_empty :: "element \<Rightarrow> string" where
  "text_or_empty e = (case elem_text e of None \<Rightarrow> [] | Some s \<Rightarrow> s)"

definition findtext_desc :: "string \<Rightarrow> element \<Rightarrow> string option" where
  "findtext_desc t e = map_option text_or_empty (find_desc t e)"

text \<open>\<open>e.find("T")\<close> and \<open>e.findtext("T", default)\<close>: the first child with tag \<open>T\<close>.\<close>

definition find_child :: "string \<Rightarrow> element \<Rightarrow> element option" where
  "find_child t e = List.find (\<lambda>c. elem_tag c = t) (elem_children e)"

definition findtext_child :: "string \<Rightarrow> element \<Rightarrow> string option" where
  "findtext_child t e = map_option text_or_empty (find_child t e)"

definition findtext_child_default :: "string \<Rightarrow> string \<Rightarrow> element \<Rightarrow> string" where
  "findtext_child_default t d e =
     (case find_child t e of None \<Rightarrow> d | Some c \<Rightarrow> text_or_empty c)"

text \<open>The truth value of an element: it has at least one child.\<close>

definition truthy :: "element \<Rightarrow> bool" where
  "truthy e = (elem_children e \<noteq> [])"

definition children_tagged :: "string \<Rightarrow> element \<Rightarrow> element list" where
  "children_tagged t e = filter (\<lambda>c. elem_tag c = t) (elem_children e)"

text \<open>\<open>record.find(".//AuthorList/Author/CorrespondingAuthor")\<close>\<close>

definition find_corresponding_author :: "element \<Rightarrow> element option" where
  "find_corresponding_author r =
     (case concat (map (\<lambda>al. concat (map (children_tagged ''CorrespondingAuthor'')
                                         (children_tagged ''Author'' al)))
                       (findall_desc ''AuthorList'' r)) of
        [] \<Rightarrow> None
      | x # _ \<Rightarrow> Some x)"

text \<open>\<open>corr_author.find("AffiliationInfo/Affiliation")\<close>\<close>

definition find_affiliation_path :: "element \<Rightarrow> element option" where
  "find_affiliation_path c =
     (case concat (map (children_tagged ''Affiliation'') (children_tagged ''AffiliationInfo'' c)) of
        [] \<Rightarrow> None
      | x # _ \<Rightarrow> Some x)"

section \<open>Exceptions, diagnostics and the transport\<close>

datatype exn = RequestException | ParseError | TypeError

text \<open>
  What \<open>print\<close> writes when \<open>debug\<close> is set, one constructor per message with the values
  the message formats.
\<close>

datatype event =
    DebugSearching string int
  | DebugYearFilter "string list"
  | SearchErrorRequest
  | SearchErrorStatus nat
  | SearchErrorParse
  | SearchNoIds
  | DebugFoundIds nat
  | FetchErrorRequest
  | FetchErrorStatus nat
  | FetchErrorParse
  | DebugParsing nat
  | DebugSkipYear string "string option"
  | DebugCorrespondingError exn
  | DebugAdded string
  | ParseErrorRecord exn
  | DebugFinished nat

definition dbg :: "bool \<Rightarrow> event \<Rightarrow> event list" where
  "dbg debug ev = (if debug then [ev] else [])"

text \<open>
  The two requests of the program, and what \<open>requests.get\<close> gives for one: it raises, or it
  returns a response with a status code and a body. The body is kept as what
  \<open>ET.fromstring\<close> makes of it: a parse error or the root element.
\<close>

datatype request = ESearch string int | EFetch string

datatype xml_body = Malformed | Document element

datatype http_outcome = ConnectionFailed | Response nat xml_body

type_synonym transport = "request \<Rightarrow> http_outcome"

text \<open>\<open>requests.get\<close> followed by \<open>raise_for_status\<close> (an HTTPError, which is a
  RequestException, for a status from 400 to 599).\<close>

definition http_get :: "transport \<Rightarrow> request \<Rightarrow> exn + (nat \<times> xml_body)" where
  "http_get t req =
     (case t req of
        ConnectionFailed \<Rightarrow> Inl RequestException
      | Response status body \<Rightarrow>
          if 400 \<le> status \<and> status < 600 then Inl RequestException else Inr (status, body))"

definition fromstring :: "xml_body \<Rightarrow> exn + element" where
  "fromstring b = (case b of Malformed \<Rightarrow> Inl ParseError | Document root \<Rightarrow> Inr root)"

text \<open>\<open>",".join(id_list)\<close>: a TypeError when an item is \<open>None\<close>.\<close>

fun all_text :: "string option list \<Rightarrow> exn + string list" where
  "all_text [] = Inr []"
| "all_text (None # xs) = Inl TypeError"
| "all_text (Some x # xs) = (case all_text xs of Inl e \<Rightarrow> Inl e | Inr ys \<Rightarrow> Inr (x # ys))"

definition join_ids :: "string option list \<Rightarrow> exn + string" where
  "join_ids ids = (case all_text ids of Inl e \<Rightarrow> Inl e | Inr xs \<Rightarrow> Inr (join '','' xs))"

section \<open>Extracting one record\<close>

record output_row =
  PubmedID :: string
  Title :: string
  Publication_Date :: "string option"
  Non_academic_Authors :: string
  Company_Affiliations :: string
  Corresponding_Author_Email :: string

text \<open>Lines 153 to 156. The year is \<open>None\<close> when \<open>PubDate\<close> has children but no \<open>Year\<close>.\<close>

definition read_title :: "element \<Rightarrow> string" where
  "read_title r = or_NA (findtext_desc ''ArticleTitle'' r)"

definition read_pub_year :: "element \<Rightarrow> string option" where
  "read_pub_year r =
     (case find_desc ''PubDate'' r of
        None \<Rightarrow> Some ''N/A''
      | Some d \<Rightarrow> if truthy d then findtext_child ''Year'' d else Some ''N/A'')"

definition read_pmid :: "element \<Rightarrow> string" where
  "read_pmid r = or_NA (findtext_desc ''PMID'' r)"

text \<open>Line 158: \<open>year_filter and pub_year not in year_filter\<close>; the filter may be \<open>None\<close>.\<close>

definition year_excluded :: "string list option \<Rightarrow> string option \<Rightarrow> bool" where
  "year_excluded year_filter pub_year =
     (case year_filter of
        None \<Rightarrow> False
      | Some ys \<Rightarrow> ys \<noteq> [] \<and> pub_year \<notin> set (map Some ys))"

text \<open>Lines 169 to 170 and line 173.\<close>

definition author_affil :: "element \<Rightarrow> string option" where
  "author_affil author =
     (case find_child ''AffiliationInfo'' author of
        None \<Rightarrow> None
      | Some affil_info \<Rightarrow> if truthy affil_info then findtext_child ''Affiliation'' affil_info else None)"

definition author_name :: "element \<Rightarrow> string" where
  "author_name author =
     strip (findtext_child_default ''ForeName'' [] author @ '' '' @
            findtext_child_default ''LastName'' [] author)"

text \<open>The three variables of the author loop.\<close>

record scan =
  non_academic_authors :: "string list"
  company_affiliations :: "string list"
  corresponding_email :: string

definition init_scan :: scan where
  "init_scan = \<lparr>non_academic_authors = [], company_affiliations = [], corresponding_email = ''N/A''\<rparr>"

text \<open>The body of the loop over the authors, lines 169 to 181.\<close>

definition author_step :: "scan \<Rightarrow> element \<Rightarrow> scan" where
  "author_step st author =
     (case author_affil author of
        None \<Rightarrow> st
      | Some affil \<Rightarrow>
          if is_commercial (Some affil) then
            (let name = author_name author;
                 st1 = (if name \<noteq> [] then st\<lparr>non_academic_authors := non_academic_authors st @ [name]\<rparr>
                        else st);
                 st2 = st1\<lparr>company_affiliations := company_affiliations st1 @ [affil]\<rparr>
             in case search_email affil of
                  Some m \<Rightarrow> st2\<lparr>corresponding_email := m\<rparr>
                | None \<Rightarrow> st2)
          else st)"

fun author_loop :: "element list \<Rightarrow> scan \<Rightarrow> scan" where
  "author_loop [] st = st"
| "author_loop (author # rest) st = author_loop rest (author_step st author)"

text \<open>
  The body of the inner \<open>try\<close>, lines 185 to 191: \<open>re.search\<close> on the text \<open>None\<close> raises a
  TypeError; otherwise the result is the match, if there is one.
\<close>

definition corr_author_probe :: "element \<Rightarrow> exn + string option" where
  "corr_author_probe r =
     (case find_corresponding_author r of
        None \<Rightarrow> Inr None
      | Some corr_author \<Rightarrow>
          (case find_affiliation_path corr_author of
             None \<Rightarrow> Inr None
           | Some email_element \<Rightarrow>
               (case elem_text email_element of
                  None \<Rightarrow> Inl TypeError
                | Some t \<Rightarrow> Inr (search_email t))))"

text \<open>Lines 184 to 196: the probe under its handler, from the email the loop left.\<close>

definition probe_corresponding :: "bool \<Rightarrow> element \<Rightarrow> string \<Rightarrow> event list \<times> string" where
  "probe_corresponding debug r email =
     (case corr_author_probe r of
        Inl e \<Rightarrow> (dbg debug (DebugCorrespondingError e), email)
      | Inr None \<Rightarrow> ([], email)
      | Inr (Some m) \<Rightarrow> ([], m))"

text \<open>Lines 163 to 209: what follows the year filter.\<close>

definition build_row ::
  "bool \<Rightarrow> string \<Rightarrow> string \<Rightarrow> string option \<Rightarrow> element \<Rightarrow> event list \<times> (exn + output_row option)" where
  "build_row debug pmid title pub_year r =
     (let st = author_loop (findall_desc ''Author'' r) init_scan;
          (evs, email) = probe_corresponding debug r (corresponding_email st)
      in if non_academic_authors st \<noteq> [] then
           (evs @ dbg debug (DebugAdded pmid),
            Inr (Some \<lparr>PubmedID = pmid, Title = title, Publication_Date = pub_year,
                       Non_academic_Authors = join ''; '' (non_academic_authors st),
                       Company_Affiliations = join ''; '' (sort (remdups (company_affiliations st))),
                       Corresponding_Author_Email = email\<rparr>))
         else (evs, Inr None))"

text \<open>The body of the outer \<open>try\<close>, lines 153 to 209; \<open>Inr None\<close> is a record without a row.\<close>

definition extract_record ::
  "bool \<Rightarrow> string list option \<Rightarrow> element \<Rightarrow> event list \<times> (exn + output_row option)" where
  "extract_record debug year_filter r =
     (let title = read_title r; pub_year = read_pub_year r; pmid = read_pmid r
      in if year_excluded year_filter pub_year then (dbg debug (DebugSkipYear pmid pub_year), Inr None)
         else build_row debug pmid title pub_year r)"

section \<open>The search and the fetch\<close>

text \<open>The loop over the records, lines 151 to 214, with the handler of line 212.\<close>

fun process_records ::
  "bool \<Rightarrow> string list option \<Rightarrow> element list \<Rightarrow> output_row list \<Rightarrow> event list \<times> output_row list" where
  "process_records debug year_filter [] results = ([], results)"
| "process_records debug year_filter (r # rs) results =
     (case extract_record debug year_filter r of
        (evs, Inl e) \<Rightarrow>
          (let (evs', res) = process_records debug year_filter rs results
           in (evs @ dbg debug (ParseErrorRecord e) @ evs', res))
      | (evs, Inr None) \<Rightarrow>
          (let (evs', res) = process_records debug year_filter rs results
           in (evs @ evs', res))
      | (evs, Inr (Some row)) \<Rightarrow>
          (let (evs', res) = process_records debug year_filter rs (results @ [row])
           in (evs @ evs', res)))"

text \<open>Lines 123 to 220, after the identifiers have been joined.\<close>

definition fetch_stage ::
  "bool \<Rightarrow> string list option \<Rightarrow> transport \<Rightarrow> string \<Rightarrow> event list \<times> (exn + output_row list)" where
  "fetch_stage debug year_filter t ids =
     (case http_get t (EFetch ids) of
        Inl e \<Rightarrow> (dbg debug FetchErrorRequest, Inr [])
      | Inr (status, body) \<Rightarrow>
          if status \<noteq> 200 then (dbg debug (FetchErrorStatus status), Inr [])
          else
            (case fromstring body of
               Inl e \<Rightarrow> (dbg debug FetchErrorParse, Inr [])
             | Inr records_root \<Rightarrow>
                 (let records = findall_desc ''PubmedArticle'' records_root;
                      (evs, results) = process_records debug year_filter records []
                  in (dbg debug (DebugParsing (length records)) @ evs @
                        dbg debug (DebugFinished (length results)),
                      Inr results))))"

text \<open>Lines 98 to 121, from the body of the search response to the fetch.\<close>

definition search_stage ::
  "bool \<Rightarrow> string list option \<Rightarrow> transport \<Rightarrow> xml_body \<Rightarrow> event list \<times> (exn + output_row list)" where
  "search_stage debug year_filter t body =
     (case fromstring body of
        Inl e \<Rightarrow> (dbg debug SearchErrorParse, Inr [])
      | Inr root \<Rightarrow>
          (let id_list = map elem_text (findall_desc ''Id'' root)
           in if id_list = [] then (dbg debug SearchNoIds, Inr [])
              else
                (case join_ids id_list of
                   Inl e \<Rightarrow> (dbg debug (DebugFoundIds (length id_list)), Inl e)
                 | Inr ids \<Rightarrow>
                     (let (evs, res) = fetch_stage debug year_filter t ids
                      in (dbg debug (DebugFoundIds (length id_list)) @ evs, res)))))"

text \<open>The whole function; \<open>Inl\<close> is an exception that reaches the caller.\<close>

definition fetch_pubmed_data ::
  "string \<Rightarrow> int \<Rightarrow> string list option \<Rightarrow> bool \<Rightarrow> transport \<Rightarrow> event list \<times> (exn + output_row list)" where
  "fetch_pubmed_data query limit year_filter debug t =
     (let start = dbg debug (DebugSearching query limit) @
                  (case year_filter of
                     None \<Rightarrow> []
                   | Some ys \<Rightarrow> if debug \<and> ys \<noteq> [] then [DebugYearFilter ys] else [])
      in case http_get t (ESearch query limit) of
           Inl e \<Rightarrow> (start @ dbg debug SearchErrorRequest, Inr [])
         | Inr (status, body) \<Rightarrow>
             if status \<noteq> 200 then (start @ dbg debug (SearchErrorStatus status), Inr [])
             else (let (evs, res) = search_stage debug year_filter t body in (start @ evs, res)))"

section \<open>Notions used in the statements\<close>

text \<open>
  The affiliation strings of the authors that the classifier accepts, in author order: what
  the loop appends to \<open>company_affiliations\<close>.
\<close>

definition classified_affiliations :: "element list \<Rightarrow> string list" where
  "classified_affiliations authors =
     filter (\<lambda>a. is_commercial (Some a)) (List.map_filter author_affil authors)"

section \<open>Example documents\<close>

text \<open>
  Records and responses on which the statements below are evaluated, laid out as PubMed lays
  them out: the identifier and the article under \<open>MedlineCitation\<close>, the \<open>PubDate\<close> under the
  journal issue, the authors under \<open>AuthorList\<close>.
\<close>

definition text_elem :: "string \<Rightarrow> string \<Rightarrow> element" where
  "text_elem t x = Element t (Some x) []"

definition author_elem :: "string \<Rightarrow> string \<Rightarrow> string \<Rightarrow> element" where
  "author_elem fore family affil =
     Element ''Author'' None
       [text_elem ''LastName'' family, text_elem ''ForeName'' fore,
        Element ''AffiliationInfo'' None [text_elem ''Affiliation'' affil]]"

definition year_elem :: "string \<Rightarrow> element list" where
  "year_elem y = [Element ''PubDate'' None [text_elem ''Year'' y]]"

definition article_elem :: "string \<Rightarrow> element list \<Rightarrow> element list \<Rightarrow> element" where
  "article_elem pmid pub_date authors =
     Element ''PubmedArticle'' None
       [Element ''MedlineCitation'' None
          [text_elem ''PMID'' pmid,
           Element ''Article'' None
             [Element ''Journal'' None [Element ''JournalIssue'' None pub_date],
              text_elem ''ArticleTitle'' ''A study'',
              Element ''AuthorList'' None authors]]]"

definition unnamed_author :: element where
  "unnamed_author =
     Element ''Author'' None [Element ''AffiliationInfo'' None [text_elem ''Affiliation'' ''Acme Pharma Inc'']]"

definition unnamed_author_article :: element where
  "unnamed_author_article =
     article_elem ''7'' (year_elem ''2021'') [unnamed_author]"

definition named_author_article :: element where
  "named_author_article =
     article_elem ''8'' (year_elem ''2021'')
       [author_elem ''Ada'' ''Park'' ''Acme Pharma Inc'']"

definition corresponding_elem :: "string option \<Rightarrow> element" where
  "corresponding_elem x =
     Element ''Author'' None
       [Element ''CorrespondingAuthor'' None
          [Element ''AffiliationInfo'' None [Element ''Affiliation'' x []]]]"

definition two_email_authors :: "element list" where
  "two_email_authors =
     [author_elem ''Ada'' ''Park'' ''Zed Pharma Inc, a@x.com'',
      author_elem ''Bo'' ''Lin'' ''Acme Corp, b@y.org'']"

definition two_email_article :: element where
  "two_email_article = article_elem ''9'' (year_elem ''2020'') two_email_authors"

definition probed_article :: element where
  "probed_article =
     article_elem ''11'' (year_elem ''2020'')
       (two_email_authors @ [corresponding_elem (Some ''write to c@z.net'')])"

definition textless_probe_article :: element where
  "textless_probe_article =
     article_elem ''12'' (year_elem ''2020'') (two_email_authors @ [corresponding_elem None])"

definition medline_date_article :: element where
  "medline_date_article =
     article_elem ''10'' [Element ''PubDate'' None [text_elem ''MedlineDate'' ''2021 Jan-Feb'']]
       [author_elem ''Ada'' ''Park'' ''Acme Pharma Inc'']"

definition shared_affiliation_article :: element where
  "shared_affiliation_article =
     article_elem ''13'' (year_elem ''2022'')
       [author_elem ''Ada'' ''Park'' ''Zed Pharma Inc'',
        author_elem ''Bo'' ''Lin'' ''Acme Corp'',
        author_elem ''Cy'' ''Roe'' ''Acme Corp'']"

definition textless_id_transport :: transport where
  "textless_id_transport req =
     (case req of
        ESearch q l \<Rightarrow>
          Response 200 (Document (Element ''eSearchResult'' None
                                    [Element ''IdList'' None [Element ''Id'' None []]]))
      | EFetch ids \<Rightarrow> Response 200 (Document (Element ''PubmedArticleSet'' None [])))"

definition two_article_transport :: transport where
  "two_article_transport req =
     (case req of
        ESearch q l \<Rightarrow>
          Response 200 (Document (Element ''eSearchResult'' None
                                    [Element ''IdList'' None [text_elem ''Id'' ''8'', text_elem ''Id'' ''12'']]))
      | EFetch ids \<Rightarrow>
          Response 200 (Document (Element ''PubmedArticleSet'' None
                                    [named_author_article, textless_probe_article])))"

section \<open>The substring test\<close>

lemma starts_with_iff: "starts_with k h \<longleftrightarrow> (\<exists>q. h = k @ q)"
  by (induction k h rule: starts_with.induct) auto

lemma str_in_iff: "str_in k h \<longleftrightarrow> (\<exists>p q. h = p @ k @ q)"
proof (induction h)
  case Nil
  show ?case by (auto simp: starts_with_iff)
next
  case (Cons c cs)
  have "(\<exists>p q. c # cs = p @ k @ q) \<longleftrightarrow> (\<exists>q. c # cs = k @ q) \<or> (\<exists>p q. cs = p @ k @ q)"
  proof
    assume "\<exists>p q. c # cs = p @ k @ q"
    then obtain p q where pq: "c # cs = p @ k @ q" by blast
    show "(\<exists>q. c # cs = k @ q) \<or> (\<exists>p q. cs = p @ k @ q)"
    proof (cases p)
      case Nil
      with pq show ?thesis by auto
    next
      case (Cons c' p')
      with pq have "cs = p' @ k @ q" by simp
      then show ?thesis by blast
    qed
  next
    assume "(\<exists>q. c # cs = k @ q) \<or> (\<exists>p q. cs = p @ k @ q)"
    then show "\<exists>p q. c # cs = p @ k @ q"
    proof
      assume "\<exists>q. c # cs = k @ q"
      then obtain q where "c # cs = [] @ k @ q" by auto
      then show ?thesis by blast
    next
      assume "\<exists>p q. cs = p @ k @ q"
      then obtain p q where "cs = p @ k @ q" by blast
      then have "c # cs = (c # p) @ k @ q" by simp
      then show ?thesis by blast
    qed
  qed
  with Cons show ?case by (simp add: starts_with_iff)
qed

lemma lower_keywords: "map lower PHARMA_KEYWORDS = PHARMA_KEYWORDS"
  by code_simp

lemma is_commercial_None: "is_commercial None = False"
  by (simp add: is_commercial_def)

text \<open>
  Claim C4. The classifier is false on an absent affiliation, and on a present one it is true
  exactly when the lowercased text contains one of the thirteen keywords as a contiguous
  block.
\<close>

theorem classifier_keywords:
  "is_commercial None = False \<and>
   (\<forall>s. is_commercial (Some s) =
      (\<exists>k \<in> set [''pharma'', ''biotech'', ''therapeutics'', ''genomics'', ''diagnostics'',
                  ''inc'', ''corp'', ''ltd'', ''gmbh'', ''s.a.'', ''s.r.l'', ''pharmaceutical'',
                  ''biotechnology'']. \<exists>p q. lower s = p @ k @ q))"
proof (intro conjI allI)
  show "is_commercial None = False" by (rule is_commercial_None)
next
  fix s
  have kw: "set (map lower PHARMA_KEYWORDS) = set PHARMA_KEYWORDS"
    by (simp only: lower_keywords)
  have "is_commercial (Some s) \<longleftrightarrow> s \<noteq> [] \<and> (\<exists>k \<in> set (map lower PHARMA_KEYWORDS). str_in k (lower s))"
    by (simp add: is_commercial_def list_ex_iff)
  also have "\<dots> \<longleftrightarrow> s \<noteq> [] \<and> (\<exists>k \<in> set PHARMA_KEYWORDS. \<exists>p q. lower s = p @ k @ q)"
    by (simp only: kw str_in_iff)
  also have "\<dots> \<longleftrightarrow> (\<exists>k \<in> set PHARMA_KEYWORDS. \<exists>p q. lower s = p @ k @ q)"
  proof (cases "s = []")
    case True
    have "\<not> (\<exists>k \<in> set PHARMA_KEYWORDS. \<exists>p q. lower [] = p @ k @ q)"
      by (auto simp: PHARMA_KEYWORDS_def lower_def)
    with True show ?thesis by simp
  next
    case False
    then show ?thesis by simp
  qed
  finally show "is_commercial (Some s) =
      (\<exists>k \<in> set [''pharma'', ''biotech'', ''therapeutics'', ''genomics'', ''diagnostics'',
                  ''inc'', ''corp'', ''ltd'', ''gmbh'', ''s.a.'', ''s.r.l'', ''pharmaceutical'',
                  ''biotechnology'']. \<exists>p q. lower s = p @ k @ q)"
    by (simp only: PHARMA_KEYWORDS_def)
qed

lemma lower_example: "lower ''Zed Pharma'' = ''zed '' @ ''pharma'' @ []"
  by code_simp

theorem classifier_keywords_witness:
  "is_commercial (Some ''Zed Pharma'') \<and> \<not> is_commercial None"
proof -
  have "\<exists>k \<in> set [''pharma'', ''biotech'', ''therapeutics'', ''genomics'', ''diagnostics'',
                  ''inc'', ''corp'', ''ltd'', ''gmbh'', ''s.a.'', ''s.r.l'', ''pharmaceutical'',
                  ''biotechnology'']. \<exists>p q. lower ''Zed Pharma'' = p @ k @ q"
  proof (intro bexI [of _ "''pharma''"] exI)
    show "lower ''Zed Pharma'' = ''zed '' @ ''pharma'' @ []" by (rule lower_example)
  qed simp
  then show ?thesis using classifier_keywords by simp
qed

section \<open>The author loop\<close>

lemma author_step_names:
  "non_academic_authors (author_step st a) =
     non_academic_authors st @
       (if is_commercial (author_affil a) \<and> author_name a \<noteq> [] then [author_name a] else [])"
  by (auto simp: author_step_def Let_def is_commercial_None split: option.splits)

lemma author_step_affils:
  "company_affiliations (author_step st a) =
     company_affiliations st @ classified_affiliations [a]"
  by (auto simp: author_step_def Let_def is_commercial_None classified_affiliations_def
      split: option.splits)

lemma author_step_email:
  "corresponding_email (author_step st a) =
     (let ms = List.map_filter search_email (classified_affiliations [a])
      in if ms = [] then corresponding_email st else last ms)"
  by (auto simp: author_step_def Let_def is_commercial_None classified_affiliations_def
      split: option.splits)

lemma classified_affiliations_Cons:
  "classified_affiliations (a # as) = classified_affiliations [a] @ classified_affiliations as"
  by (simp add: classified_affiliations_def split: option.splits)

lemma map_filter_append: "List.map_filter f (xs @ ys) = List.map_filter f xs @ List.map_filter f ys"
  by (simp add: List.map_filter_def)

lemma author_loop_names:
  "non_academic_authors (author_loop as st) =
     non_academic_authors st @
       map author_name (filter (\<lambda>a. is_commercial (author_affil a) \<and> author_name a \<noteq> []) as)"
  by (induction as arbitrary: st) (simp_all add: author_step_names)

lemma author_loop_affils:
  "company_affiliations (author_loop as st) = company_affiliations st @ classified_affiliations as"
proof (induction as arbitrary: st)
  case Nil
  show ?case by (simp add: classified_affiliations_def)
next
  case (Cons a as)
  show ?case
    by (simp add: Cons.IH author_step_affils classified_affiliations_Cons [of a as])
qed

lemma author_loop_email:
  "corresponding_email (author_loop as st) =
     (let ms = List.map_filter search_email (classified_affiliations as)
      in if ms = [] then corresponding_email st else last ms)"
proof (induction as arbitrary: st)
  case Nil
  show ?case by (simp add: classified_affiliations_def)
next
  case (Cons a as)
  show ?case
    by (simp add: Cons.IH author_step_email classified_affiliations_Cons [of a as] map_filter_append
        Let_def)
qed


section \<open>The result of one record\<close>

lemma snd_probe_corresponding:
  "snd (probe_corresponding debug r email) =
     (case corr_author_probe r of Inl e \<Rightarrow> email | Inr None \<Rightarrow> email | Inr (Some m) \<Rightarrow> m)"
  by (simp add: probe_corresponding_def split: sum.splits option.splits)

lemma snd_build_row:
  "snd (build_row debug pmid title pub_year r) =
     (let st = author_loop (findall_desc ''Author'' r) init_scan
      in if non_academic_authors st \<noteq> [] then
           Inr (Some \<lparr>PubmedID = pmid, Title = title, Publication_Date = pub_year,
                      Non_academic_Authors = join ''; '' (non_academic_authors st),
                      Company_Affiliations = join ''; '' (sort (remdups (company_affiliations st))),
                      Corresponding_Author_Email =
                        snd (probe_corresponding debug r (corresponding_email st))\<rparr>)
         else Inr None)"
  by (simp add: build_row_def Let_def split: prod.splits)

lemma snd_extract_record:
  "snd (extract_record debug year_filter r) =
     (if year_excluded year_filter (read_pub_year r) then Inr None
      else snd (build_row debug (read_pmid r) (read_title r) (read_pub_year r) r))"
  by (simp add: extract_record_def Let_def)

lemma year_excluded_empty:
  "year_filter = None \<or> year_filter = Some [] \<Longrightarrow> \<not> year_excluded year_filter y"
  by (auto simp: year_excluded_def)

lemma init_scan_names: "non_academic_authors init_scan = []"
  by (simp add: init_scan_def)

lemma names_nonempty_iff:
  "non_academic_authors (author_loop as init_scan) \<noteq> [] \<longleftrightarrow>
     (\<exists>a \<in> set as. is_commercial (author_affil a) \<and> author_name a \<noteq> [])"
  by (auto simp: author_loop_names init_scan_names filter_empty_conv)

text \<open>
  Claim C1, amended. With an empty year filter (\<open>None\<close> or the empty list) a record yields a
  row exactly when one of its authors has an affiliation that the classifier accepts and a
  display name that is not empty after trimming.
\<close>

theorem row_iff_named_commercial_author:
  assumes "year_filter = None \<or> year_filter = Some []"
  shows "(\<exists>row. snd (extract_record debug year_filter r) = Inr (Some row)) \<longleftrightarrow>
         (\<exists>a \<in> set (findall_desc ''Author'' r). is_commercial (author_affil a) \<and> author_name a \<noteq> [])"
proof -
  have "snd (extract_record debug year_filter r) =
          snd (build_row debug (read_pmid r) (read_title r) (read_pub_year r) r)"
    using year_excluded_empty [OF assms] by (simp add: snd_extract_record)
  then show ?thesis
    by (simp add: snd_build_row Let_def names_nonempty_iff [symmetric])
qed

theorem row_iff_named_commercial_author_witness:
  "(\<exists>row. snd (extract_record False None named_author_article) = Inr (Some row)) \<and>
   (\<exists>a \<in> set (findall_desc ''Author'' named_author_article).
       is_commercial (author_affil a) \<and> author_name a \<noteq> [])"
proof -
  have a: "author_elem ''Ada'' ''Park'' ''Acme Pharma Inc'' \<in> set (findall_desc ''Author'' named_author_article)"
    by code_simp
  have b: "is_commercial (author_affil (author_elem ''Ada'' ''Park'' ''Acme Pharma Inc''))"
    by code_simp
  have c: "author_name (author_elem ''Ada'' ''Park'' ''Acme Pharma Inc'') \<noteq> []"
    by code_simp
  have rhs: "\<exists>a \<in> set (findall_desc ''Author'' named_author_article).
       is_commercial (author_affil a) \<and> author_name a \<noteq> []"
    using a b c by blast
  have "(None :: string list option) = None \<or> (None :: string list option) = Some []"
    by simp
  from row_iff_named_commercial_author [OF this, of False named_author_article] rhs
  show ?thesis by blast
qed

text \<open>
  Claim C1 as stated fails: the only author of this record has the affiliation
  \<open>Acme Pharma Inc\<close>, which the classifier accepts, and neither \<open>ForeName\<close> nor \<open>LastName\<close>;
  the record yields no row.
\<close>

theorem unnamed_commercial_author_counterexample:
  "findall_desc ''Author'' unnamed_author_article = [unnamed_author] \<and>
   is_commercial (author_affil unnamed_author) \<and>
   snd (extract_record False None unnamed_author_article) = Inr None"
  by code_simp

section \<open>The email field\<close>

text \<open>
  Claim C2, evaluated where it fails. Both authors of this record are accepted by the
  classifier; the first affiliation holds \<open>a@x.com\<close>, the second \<open>b@y.org\<close>, and there is no
  \<open>CorrespondingAuthor\<close> element. The email field of the row is the second match, not the
  first.
\<close>

theorem first_email_evaluation:
  "List.map_filter search_email (classified_affiliations (findall_desc ''Author'' two_email_article)) =
     [''a@x.com'', ''b@y.org''] \<and>
   corr_author_probe two_email_article = Inr None \<and>
   snd (extract_record False None two_email_article) =
     Inr (Some \<lparr>PubmedID = ''9'', Title = ''A study'', Publication_Date = Some ''2020'',
                Non_academic_Authors = ''Ada Park; Bo Lin'',
                Company_Affiliations = ''Acme Corp, b@y.org; Zed Pharma Inc, a@x.com'',
                Corresponding_Author_Email = ''b@y.org''\<rparr>)"
  by code_simp

text \<open>
  Claim C3. After the author loop the email is the last match among the affiliations of the
  classified authors, in author order, or the value before the loop when none matches. A
  match of the probe replaces whatever email the loop left, whether or not an author was
  classified; and the email field of an emitted row is the email after the probe.
\<close>

theorem email_last_match_then_probe:
  "corresponding_email (author_loop authors st) =
     (let ms = List.map_filter search_email (classified_affiliations authors)
      in if ms = [] then corresponding_email st else last ms) \<and>
   (corr_author_probe r = Inr (Some m) \<longrightarrow> snd (probe_corresponding debug r email) = m) \<and>
   (snd (build_row debug pmid title pub_year r) = Inr (Some row) \<longrightarrow>
      Corresponding_Author_Email row =
        snd (probe_corresponding debug r
               (corresponding_email (author_loop (findall_desc ''Author'' r) init_scan))))"
proof (intro conjI impI)
  show "corresponding_email (author_loop authors st) =
     (let ms = List.map_filter search_email (classified_affiliations authors)
      in if ms = [] then corresponding_email st else last ms)"
    by (rule author_loop_email)
next
  assume "corr_author_probe r = Inr (Some m)"
  then show "snd (probe_corresponding debug r email) = m"
    by (simp add: snd_probe_corresponding)
next
  assume "snd (build_row debug pmid title pub_year r) = Inr (Some row)"
  then show "Corresponding_Author_Email row =
        snd (probe_corresponding debug r
               (corresponding_email (author_loop (findall_desc ''Author'' r) init_scan)))"
    by (auto simp: snd_build_row Let_def split: if_splits)
qed

lemma probed_article_probe: "corr_author_probe probed_article = Inr (Some ''c@z.net'')"
  by code_simp

lemma probed_article_row:
  "snd (build_row False ''11'' ''A study'' (Some ''2020'') probed_article) =
     Inr (Some \<lparr>PubmedID = ''11'', Title = ''A study'', Publication_Date = Some ''2020'',
                Non_academic_Authors = ''Ada Park; Bo Lin'',
                Company_Affiliations = ''Acme Corp, b@y.org; Zed Pharma Inc, a@x.com'',
                Corresponding_Author_Email = ''c@z.net''\<rparr>)"
  by code_simp

lemma two_email_matches:
  "List.map_filter search_email (classified_affiliations two_email_authors) = [''a@x.com'', ''b@y.org'']"
  by code_simp

theorem email_last_match_then_probe_witness:
  "corresponding_email (author_loop two_email_authors init_scan) = ''b@y.org'' \<and>
   corr_author_probe probed_article = Inr (Some ''c@z.net'') \<and>
   snd (probe_corresponding False probed_article ''b@y.org'') = ''c@z.net'' \<and>
   snd (build_row False ''11'' ''A study'' (Some ''2020'') probed_article) =
     Inr (Some \<lparr>PubmedID = ''11'', Title = ''A study'', Publication_Date = Some ''2020'',
                Non_academic_Authors = ''Ada Park; Bo Lin'',
                Company_Affiliations = ''Acme Corp, b@y.org; Zed Pharma Inc, a@x.com'',
                Corresponding_Author_Email = ''c@z.net''\<rparr>) \<and>
   snd (probe_corresponding False probed_article
          (corresponding_email (author_loop (findall_desc ''Author'' probed_article) init_scan))) =
     ''c@z.net''"
  using email_last_match_then_probe
          [of two_email_authors init_scan probed_article "''c@z.net''" False "''b@y.org''"
              "''11''" "''A study''" "Some ''2020''"
              "\<lparr>PubmedID = ''11'', Title = ''A study'', Publication_Date = Some ''2020'',
                Non_academic_Authors = ''Ada Park; Bo Lin'',
                Company_Affiliations = ''Acme Corp, b@y.org; Zed Pharma Inc, a@x.com'',
                Corresponding_Author_Email = ''c@z.net''\<rparr>"]
        probed_article_probe probed_article_row two_email_matches
  by simp

section \<open>The year filter\<close>

text \<open>
  Claim C5. When the year filter is not empty and the publication year of the record is
  not equal to one of its strings, the record yields no row, and nothing but the skip
  message is produced: no author is read. With an empty filter (\<open>None\<close> or the empty list)
  the year check lets every record through to the rest of the extraction.
\<close>

theorem year_filter_skips_record:
  "(ys \<noteq> [] \<and> read_pub_year r \<notin> Some ` set ys \<longrightarrow>
      extract_record debug (Some ys) r =
        (dbg debug (DebugSkipYear (read_pmid r) (read_pub_year r)), Inr None)) \<and>
   (year_filter = None \<or> year_filter = Some [] \<longrightarrow>
      extract_record debug year_filter r =
        build_row debug (read_pmid r) (read_title r) (read_pub_year r) r)"
  by (auto simp: extract_record_def Let_def year_excluded_def)

lemma named_author_article_year: "read_pub_year named_author_article = Some ''2021''"
  by code_simp

theorem year_filter_skips_record_witness:
  "[''2020'', ''2022''] \<noteq> [] \<and>
   read_pub_year named_author_article \<notin> Some ` set [''2020'', ''2022''] \<and>
   snd (extract_record False (Some [''2020'', ''2022'']) named_author_article) = Inr None \<and>
   extract_record False None named_author_article =
     build_row False (read_pmid named_author_article) (read_title named_author_article)
       (read_pub_year named_author_article) named_author_article"
  using year_filter_skips_record [of "[''2020'', ''2022'']" named_author_article False None]
  by (simp add: named_author_article_year dbg_def)

section \<open>The default of the fields\<close>

text \<open>
  Claim C6, evaluated where it fails. The \<open>PubDate\<close> of this record has a \<open>MedlineDate\<close>
  child and no \<open>Year\<close>: the publication year is \<open>None\<close>, not \<open>N/A\<close>, and the row carries it.
\<close>

theorem year_default_evaluation:
  "read_pub_year medline_date_article = None \<and>
   snd (extract_record False None medline_date_article) =
     Inr (Some \<lparr>PubmedID = ''10'', Title = ''A study'', Publication_Date = None,
                Non_academic_Authors = ''Ada Park'',
                Company_Affiliations = ''Acme Pharma Inc'',
                Corresponding_Author_Email = ''N/A''\<rparr>)"
  by code_simp

section \<open>The affiliation field\<close>

lemma count_list_distinct: "distinct xs \<Longrightarrow> x \<in> set xs \<Longrightarrow> count_list xs x = 1"
  by (induction xs) auto

text \<open>
  Claim C7. In every row the affiliation field is the list of the triggering affiliation
  strings, deduplicated and sorted, joined by \<open>; \<close>. The joined list is sorted, has no
  duplicates, has the same elements as the triggering strings, and holds each of them once,
  however many classified authors share it.
\<close>

theorem affiliations_sorted_distinct:
  assumes "snd (extract_record debug year_filter r) = Inr (Some row)"
  shows "(let affs = classified_affiliations (findall_desc ''Author'' r);
              L = sort (remdups affs)
          in Company_Affiliations row = join ''; '' L \<and> sorted L \<and> distinct L \<and>
             set L = set affs \<and> (\<forall>a \<in> set affs. count_list L a = 1))"
proof -
  let ?affs = "classified_affiliations (findall_desc ''Author'' r)"
  let ?L = "sort (remdups ?affs)"
  have field: "Company_Affiliations row = join ''; '' ?L"
    using assms
    by (auto simp: snd_extract_record snd_build_row Let_def author_loop_affils init_scan_def
        split: if_splits)
  have d: "distinct ?L" by simp
  have s: "set ?L = set ?affs" by simp
  have c: "\<forall>a \<in> set ?affs. count_list ?L a = 1"
    using d s by (simp add: count_list_distinct)
  show ?thesis
    using field c by (simp add: Let_def)
qed

lemma shared_affiliation_row:
  "snd (extract_record False None shared_affiliation_article) =
     Inr (Some \<lparr>PubmedID = ''13'', Title = ''A study'', Publication_Date = Some ''2022'',
                Non_academic_Authors = ''Ada Park; Bo Lin; Cy Roe'',
                Company_Affiliations = ''Acme Corp; Zed Pharma Inc'',
                Corresponding_Author_Email = ''N/A''\<rparr>)"
  by code_simp

lemma shared_affiliation_affils:
  "classified_affiliations (findall_desc ''Author'' shared_affiliation_article) =
     [''Zed Pharma Inc'', ''Acme Corp'', ''Acme Corp'']"
  by code_simp

lemma shared_affiliation_sort:
  "sort (remdups [''Zed Pharma Inc'', ''Acme Corp'', ''Acme Corp'']) = [''Acme Corp'', ''Zed Pharma Inc'']"
  by code_simp

theorem affiliations_sorted_distinct_witness:
  "snd (extract_record False None shared_affiliation_article) =
     Inr (Some \<lparr>PubmedID = ''13'', Title = ''A study'', Publication_Date = Some ''2022'',
                Non_academic_Authors = ''Ada Park; Bo Lin; Cy Roe'',
                Company_Affiliations = ''Acme Corp; Zed Pharma Inc'',
                Corresponding_Author_Email = ''N/A''\<rparr>) \<and>
   ''Acme Corp; Zed Pharma Inc'' = join ''; '' [''Acme Corp'', ''Zed Pharma Inc''] \<and>
   count_list [''Acme Corp'', ''Zed Pharma Inc''] ''Acme Corp'' = 1"
  using affiliations_sorted_distinct [OF shared_affiliation_row]
  by (simp add: shared_affiliation_row shared_affiliation_affils shared_affiliation_sort Let_def)


section \<open>The probe of the corresponding author\<close>

text \<open>
  Claim C10. When the probe of the corresponding author raises, its handler keeps the email
  it was given, no exception leaves the extraction of the record, and a record that passes
  the year filter and has a classified author with a name is emitted with the email the
  author loop produced.
\<close>

theorem probe_failure_is_swallowed:
  assumes "corr_author_probe r = Inl e"
  shows "probe_corresponding debug r email = (dbg debug (DebugCorrespondingError e), email) \<and>
         (\<forall>x. snd (extract_record debug year_filter r) \<noteq> Inl x) \<and>
         (\<not> year_excluded year_filter (read_pub_year r) \<and>
          (\<exists>a \<in> set (findall_desc ''Author'' r). is_commercial (author_affil a) \<and> author_name a \<noteq> []) \<longrightarrow>
            (\<exists>row. snd (extract_record debug year_filter r) = Inr (Some row) \<and>
                   Corresponding_Author_Email row =
                     corresponding_email (author_loop (findall_desc ''Author'' r) init_scan)))"
proof (intro conjI allI impI)
  show "probe_corresponding debug r email = (dbg debug (DebugCorrespondingError e), email)"
    using assms by (simp add: probe_corresponding_def)
next
  fix x
  show "snd (extract_record debug year_filter r) \<noteq> Inl x"
    by (simp add: snd_extract_record snd_build_row Let_def)
next
  assume h: "\<not> year_excluded year_filter (read_pub_year r) \<and>
          (\<exists>a \<in> set (findall_desc ''Author'' r). is_commercial (author_affil a) \<and> author_name a \<noteq> [])"
  then have names: "non_academic_authors (author_loop (findall_desc ''Author'' r) init_scan) \<noteq> []"
    by (simp add: names_nonempty_iff)
  have kept: "snd (probe_corresponding debug r
                     (corresponding_email (author_loop (findall_desc ''Author'' r) init_scan))) =
              corresponding_email (author_loop (findall_desc ''Author'' r) init_scan)"
    using assms by (simp add: snd_probe_corresponding)
  show "\<exists>row. snd (extract_record debug year_filter r) = Inr (Some row) \<and>
              Corresponding_Author_Email row =
                corresponding_email (author_loop (findall_desc ''Author'' r) init_scan)"
    using h names kept by (simp add: snd_extract_record snd_build_row Let_def)
qed

lemma textless_probe_raises: "corr_author_probe textless_probe_article = Inl TypeError"
  by code_simp

lemma textless_probe_row:
  "snd (extract_record True None textless_probe_article) =
     Inr (Some \<lparr>PubmedID = ''12'', Title = ''A study'', Publication_Date = Some ''2020'',
                Non_academic_Authors = ''Ada Park; Bo Lin'',
                Company_Affiliations = ''Acme Corp, b@y.org; Zed Pharma Inc, a@x.com'',
                Corresponding_Author_Email = ''b@y.org''\<rparr>)"
  by code_simp

lemma textless_probe_loop_email:
  "corresponding_email (author_loop (findall_desc ''Author'' textless_probe_article) init_scan) = ''b@y.org''"
  by code_simp

theorem probe_failure_is_swallowed_witness:
  "corr_author_probe textless_probe_article = Inl TypeError \<and>
   probe_corresponding True textless_probe_article ''b@y.org'' =
     ([DebugCorrespondingError TypeError], ''b@y.org'') \<and>
   snd (extract_record True None textless_probe_article) =
     Inr (Some \<lparr>PubmedID = ''12'', Title = ''A study'', Publication_Date = Some ''2020'',
                Non_academic_Authors = ''Ada Park; Bo Lin'',
                Company_Affiliations = ''Acme Corp, b@y.org; Zed Pharma Inc, a@x.com'',
                Corresponding_Author_Email = ''b@y.org''\<rparr>) \<and>
   corresponding_email (author_loop (findall_desc ''Author'' textless_probe_article) init_scan) = ''b@y.org''"
  using probe_failure_is_swallowed [OF textless_probe_raises, of True "''b@y.org''" None]
  by (simp add: textless_probe_raises textless_probe_row textless_probe_loop_email dbg_def)

section \<open>The whole function\<close>




lemma snd_fetch_stage:
  "snd (fetch_stage debug year_filter t ids) =
     (case http_get t (EFetch ids) of
        Inl e \<Rightarrow> Inr []
      | Inr (status, body) \<Rightarrow>
          if status \<noteq> 200 then Inr []
          else (case fromstring body of
                  Inl e \<Rightarrow> Inr []
                | Inr records_root \<Rightarrow>
                    Inr (snd (process_records debug year_filter
                                (findall_desc ''PubmedArticle'' records_root) []))))"
  by (simp add: fetch_stage_def Let_def split: sum.splits prod.splits)

lemma snd_search_stage:
  "snd (search_stage debug year_filter t body) =
     (case fromstring body of
        Inl e \<Rightarrow> Inr []
      | Inr root \<Rightarrow>
          if map elem_text (findall_desc ''Id'' root) = [] then Inr []
          else (case join_ids (map elem_text (findall_desc ''Id'' root)) of
                  Inl e \<Rightarrow> Inl e
                | Inr ids \<Rightarrow> snd (fetch_stage debug year_filter t ids)))"
  by (simp add: search_stage_def Let_def split: sum.splits prod.splits)

lemma snd_fetch_pubmed_data:
  "snd (fetch_pubmed_data query limit year_filter debug t) =
     (case http_get t (ESearch query limit) of
        Inl e \<Rightarrow> Inr []
      | Inr (status, body) \<Rightarrow>
          if status \<noteq> 200 then Inr [] else snd (search_stage debug year_filter t body))"
  by (simp add: fetch_pubmed_data_def Let_def split: sum.splits prod.splits)



lemma two_article_trace:
  "fst (fetch_pubmed_data ''cancer'' 50 (Some [''2020'']) True two_article_transport) =
     [DebugSearching ''cancer'' 50, DebugYearFilter [''2020''], DebugFoundIds 2, DebugParsing 2,
      DebugSkipYear ''8'' (Some ''2021''), DebugCorrespondingError TypeError, DebugAdded ''12'',
      DebugFinished 1]"
  by code_simp


text \<open>
  Claim C8, evaluated where it fails. The search response is well-formed and holds one \<open>Id\<close>
  element without text; \<open>",".join(id_list)\<close> at line 119 is outside every \<open>try\<close>, and its
  TypeError reaches the caller.
\<close>

theorem textless_id_evaluation:
  "map elem_text (findall_desc ''Id''
      (Element ''eSearchResult'' None [Element ''IdList'' None [Element ''Id'' None []]])) = [None] \<and>
   fetch_pubmed_data ''cancer'' 50 None False textless_id_transport = ([], Inl TypeError)"
  by code_simp

text \<open>
  Apart from that join nothing raises: when every \<open>Id\<close> of the search response has text,
  the function returns a list of rows.
\<close>

lemma extract_record_no_exception: "snd (extract_record debug year_filter r) \<noteq> Inl x"
  by (simp add: snd_extract_record snd_build_row Let_def)

lemma all_text_Inr: "None \<notin> set ids \<Longrightarrow> \<exists>xs. all_text ids = Inr xs"
  by (induction ids rule: all_text.induct) auto

lemma fetch_pubmed_data_returns:
  assumes "\<And>q l status root. t (ESearch q l) = Response status (Document root) \<Longrightarrow>
             None \<notin> set (map elem_text (findall_desc ''Id'' root))"
  shows "\<exists>rows. snd (fetch_pubmed_data query limit year_filter debug t) = Inr rows"
proof (cases "t (ESearch query limit)")
  case ConnectionFailed
  then show ?thesis by (simp add: snd_fetch_pubmed_data http_get_def)
next
  case (Response status body)
  show ?thesis
  proof (cases body)
    case Malformed
    with Response show ?thesis
      by (simp add: snd_fetch_pubmed_data snd_search_stage http_get_def fromstring_def)
  next
    case (Document root)
    with Response assms have "None \<notin> set (map elem_text (findall_desc ''Id'' root))"
      by blast
    then obtain xs where "all_text (map elem_text (findall_desc ''Id'' root)) = Inr xs"
      using all_text_Inr by blast
    with Response Document show ?thesis
      by (simp add: snd_fetch_pubmed_data snd_search_stage snd_fetch_stage http_get_def
          fromstring_def join_ids_def split: sum.splits)
  qed
qed

end
